theory Spec2Isabelle
  imports Complex_Main "HOL-Library.Sublist" "HOL-Library.Multiset"
begin

section \<open>FinTech API Referee: the scoring engine and the verdict generator of models.py\<close>

text \<open>
  The embedding follows \<^verbatim>\<open>models.py\<close> function by function. Conventions:
  \<^item> a Python \<^verbatim>\<open>float\<close> is a \<^typ>\<open>rat\<close>: every finite float is a rational number, and the
    arithmetic is exact here where the interpreter rounds to the nearest double. The
    literals \<^verbatim>\<open>0.30\<close>, \<^verbatim>\<open>0.85\<close> ... denote their decimal values. NaN and the infinities
    are outside the model;
  \<^item> a Python \<^verbatim>\<open>int\<close> is an \<^typ>\<open>int\<close>;
  \<^item> a \<^verbatim>\<open>str\<close> is a \<^typ>\<open>string\<close> of 8-bit characters; \<^verbatim>\<open>str.lower\<close> maps the letters A-Z
    and leaves every other character alone;
  \<^item> a \<^verbatim>\<open>dict\<close> is an association list in insertion order, read with \<^const>\<open>map_of\<close>;
  \<^item> an exception is the \<open>Inl\<close> branch of a sum.
\<close>

subsection \<open>Python primitives\<close>

definition lower_char :: "char \<Rightarrow> char" where
  "lower_char c =
     (case map_of (zip ''ABCDEFGHIJKLMNOPQRSTUVWXYZ'' ''abcdefghijklmnopqrstuvwxyz'') c of
        Some l \<Rightarrow> l
      | None \<Rightarrow> c)"

definition lower :: "string \<Rightarrow> string" where
  "lower s = map lower_char s"

text \<open>\<^verbatim>\<open>k in s\<close> on strings is \<^term>\<open>sublist k s\<close>: \<open>k\<close> occurs in \<open>s\<close> as a contiguous block.\<close>

definition dict_get :: "('k \<times> 'v) list \<Rightarrow> 'k \<Rightarrow> 'v \<Rightarrow> 'v" where
  "dict_get d k dflt = (case map_of d k of Some v \<Rightarrow> v | None \<Rightarrow> dflt)"

text \<open>\<^verbatim>\<open>round(x)\<close> on a float: the nearest integer, a tie going to the even neighbour.\<close>

definition py_round :: "rat \<Rightarrow> int" where
  "py_round x =
     (let f = \<lfloor>x\<rfloor>; d = x - of_int f
      in if d < 1 / 2 then f
         else if 1 / 2 < d then f + 1
         else if even f then f else f + 1)"

text \<open>\<^verbatim>\<open>int(x)\<close> on a float truncates towards zero.\<close>

definition py_int :: "rat \<Rightarrow> int" where
  "py_int x = (if 0 \<le> x then \<lfloor>x\<rfloor> else \<lceil>x\<rceil>)"

definition digit_char :: "nat \<Rightarrow> char" where
  "digit_char d = ''0123456789'' ! d"

fun str_nat :: "nat \<Rightarrow> string" where
  "str_nat n = (if n < 10 then [digit_char n] else str_nat (n div 10) @ [digit_char (n mod 10)])"

declare str_nat.simps [simp del]

text \<open>\<^verbatim>\<open>str(i)\<close>, which is also how an f-string renders an int.\<close>

definition str_int :: "int \<Rightarrow> string" where
  "str_int i = (if i < 0 then CHR ''-'' # str_nat (nat (- i)) else str_nat (nat i))"

text \<open>\<^verbatim>\<open>sep.join(parts)\<close>.\<close>

fun join :: "string \<Rightarrow> string list \<Rightarrow> string" where
  "join sep [] = []"
| "join sep [p] = p"
| "join sep (p # q # ps) = p @ sep @ join sep (q # ps)"

text \<open>
  \<^verbatim>\<open>xs.sort(key=k, reverse=True)\<close>: descending in the key, and stable (elements with equal
  keys keep their order), which is the stable ascending sort on the negated key.
\<close>

definition sort_desc :: "('a \<Rightarrow> rat) \<Rightarrow> 'a list \<Rightarrow> 'a list" where
  "sort_desc k xs = sort_key (\<lambda>x. - k x) xs"

subsection \<open>Data model\<close>

datatype BudgetTier = FREE | UNDER_50 | UNDER_200 | ENTERPRISE

datatype DataType = STOCKS | CRYPTO | FOREX | OPTIONS | COMMODITIES

datatype FrequencyTier = REALTIME | DELAYED | EOD | HISTORICAL

datatype UseCase = RESEARCH | TRADING_BOT | PORTFOLIO | EDUCATIONAL

fun budget_value :: "BudgetTier \<Rightarrow> string" where
  "budget_value FREE = ''Free''"
| "budget_value UNDER_50 = ''Under $50/month''"
| "budget_value UNDER_200 = ''Under $200/month''"
| "budget_value ENTERPRISE = ''Enterprise''"

fun data_type_value :: "DataType \<Rightarrow> string" where
  "data_type_value STOCKS = ''Stocks''"
| "data_type_value CRYPTO = ''Crypto''"
| "data_type_value FOREX = ''Forex''"
| "data_type_value OPTIONS = ''Options''"
| "data_type_value COMMODITIES = ''Commodities''"

record UserConstraints =
  budget :: BudgetTier
  data_types :: "DataType list"
  frequency :: FrequencyTier
  use_case :: UseCase

text \<open>\<open>last_updated\<close> is a date (year, month, day); no function below reads it.\<close>

record APIInfo =
  name :: string
  pricing :: "(BudgetTier \<times> bool) list"
  data_coverage :: "DataType list"
  frequency_support :: "FrequencyTier list"
  rate_limits :: "(string \<times> int) list"
  strengths :: "string list"
  limitations :: "string list"
  tos_restrictions :: "string list"
  reliability_score :: rat
  last_updated :: "nat \<times> nat \<times> nat"

record APIScore =
  api :: APIInfo
  total_score :: rat
  category_scores :: "(string \<times> rat) list"
  compatibility_percentage :: int
  recommendation_rank :: int

record Verdict =
  recommendation_text :: string
  trade_offs :: "string list"
  next_steps :: "string list"
  alternative_api :: string
  alternative_reason :: string

subsection \<open>The catalog (\<^verbatim>\<open>get_all_apis\<close>)\<close>

definition alpha_vantage :: APIInfo where
  "alpha_vantage =
     \<lparr>name = ''Alpha Vantage'',
      pricing = [(FREE, True), (UNDER_50, True), (UNDER_200, True), (ENTERPRISE, True)],
      data_coverage = [STOCKS, CRYPTO, FOREX, COMMODITIES],
      frequency_support = [REALTIME, DELAYED, EOD, HISTORICAL],
      rate_limits = [(''requests_per_minute'', 5), (''requests_per_day'', 500)],
      strengths =
        [''Generous free tier with 500 requests/day'',
         ''Excellent documentation and community support'',
         ''Wide data coverage including stocks, crypto, forex'',
         ''Technical indicators built-in'',
         ''Stable and reliable service''],
      limitations =
        [''Strict rate limits on free tier (5 req/min)'',
         ''No options data available'',
         ''Real-time data requires premium subscription'',
         ''Limited historical depth on free tier''],
      tos_restrictions =
        [''Attribution required for free tier usage'',
         ''Commercial use allowed with proper licensing'',
         ''No redistribution of raw data without permission''],
      reliability_score = 85 / 100,
      last_updated = (2025, 1, 10)\<rparr>"

definition polygon_io :: APIInfo where
  "polygon_io =
     \<lparr>name = ''Polygon.io'',
      pricing = [(FREE, True), (UNDER_50, True), (UNDER_200, True), (ENTERPRISE, True)],
      data_coverage = [STOCKS, CRYPTO, FOREX, OPTIONS],
      frequency_support = [REALTIME, DELAYED, EOD, HISTORICAL],
      rate_limits = [(''requests_per_minute'', 5), (''requests_per_day'', 1000)],
      strengths =
        [''Institutional-grade data quality'',
         ''Excellent real-time streaming capabilities'',
         ''Comprehensive options data'',
         ''WebSocket support for live data'',
         ''Strong API design and documentation''],
      limitations =
        [''Free tier has limited features'',
         ''Premium pricing for full real-time access'',
         ''Some advanced features require enterprise plan'',
         ''Learning curve for WebSocket integration''],
      tos_restrictions =
        [''Free tier for personal/non-commercial use only'',
         ''Commercial use requires paid subscription'',
         ''Data redistribution prohibited without license'',
         ''Must comply with exchange data policies''],
      reliability_score = 92 / 100,
      last_updated = (2025, 1, 10)\<rparr>"

definition yahoo_finance :: APIInfo where
  "yahoo_finance =
     \<lparr>name = ''Yahoo Finance'',
      pricing = [(FREE, True), (UNDER_50, False), (UNDER_200, False), (ENTERPRISE, False)],
      data_coverage = [STOCKS, CRYPTO, FOREX, OPTIONS, COMMODITIES],
      frequency_support = [DELAYED, EOD, HISTORICAL],
      rate_limits = [(''requests_per_minute'', 100), (''requests_per_day'', 2000)],
      strengths =
        [''Completely free to use'',
         ''Wide coverage of global markets'',
         ''Good historical data depth'',
         ''Options chain data available'',
         ''Easy to use with yfinance library''],
      limitations =
        [''Unofficial API - may break without notice'',
         ''No official support or SLA'',
         ''Data quality can be inconsistent'',
         ''No real-time data available'',
         ''Rate limiting can be unpredictable''],
      tos_restrictions =
        [''Commercial use explicitly prohibited'',
         ''No redistribution allowed'',
         ''Personal/educational use only'',
         ''Terms may change without notice'',
         ''Scraping may violate TOS''],
      reliability_score = 60 / 100,
      last_updated = (2025, 1, 10)\<rparr>"

definition finnhub :: APIInfo where
  "finnhub =
     \<lparr>name = ''Finnhub'',
      pricing = [(FREE, True), (UNDER_50, True), (UNDER_200, True), (ENTERPRISE, True)],
      data_coverage = [STOCKS, CRYPTO, FOREX],
      frequency_support = [REALTIME, DELAYED, EOD, HISTORICAL],
      rate_limits = [(''requests_per_minute'', 60), (''requests_per_day'', 1500)],
      strengths =
        [''Strong alternative data (news, sentiment)'',
         ''Good free tier with 60 req/min'',
         ''Real-time WebSocket support'',
         ''Company fundamentals and financials'',
         ''Developer-friendly API design''],
      limitations =
        [''No options data'',
         ''No commodities data'',
         ''Limited historical depth on free tier'',
         ''Some features US-market focused''],
      tos_restrictions =
        [''Free tier allows commercial use with attribution'',
         ''Data redistribution requires enterprise license'',
         ''Must display Finnhub attribution in apps''],
      reliability_score = 88 / 100,
      last_updated = (2025, 1, 10)\<rparr>"

definition eodhd :: APIInfo where
  "eodhd =
     \<lparr>name = ''EODHD'',
      pricing = [(FREE, True), (UNDER_50, True), (UNDER_200, True), (ENTERPRISE, True)],
      data_coverage = [STOCKS, CRYPTO, FOREX, OPTIONS, COMMODITIES],
      frequency_support = [DELAYED, EOD, HISTORICAL],
      rate_limits = [(''requests_per_minute'', 20), (''requests_per_day'', 1000)],
      strengths =
        [''Excellent historical data (30+ years)'',
         ''Global market coverage (70+ exchanges)'',
         ''Comprehensive fundamental data'',
         ''Good value for price'',
         ''Options and commodities included''],
      limitations =
        [''No real-time streaming data'',
         ''API can be slower than competitors'',
         ''Documentation could be improved'',
         ''Limited free tier features''],
      tos_restrictions =
        [''Commercial use allowed on paid plans'',
         ''Free tier for evaluation only'',
         ''Data redistribution requires special license'',
         ''Must comply with exchange agreements''],
      reliability_score = 82 / 100,
      last_updated = (2025, 1, 10)\<rparr>"

definition quandl :: APIInfo where
  "quandl =
     \<lparr>name = ''Quandl'',
      pricing = [(FREE, False), (UNDER_50, False), (UNDER_200, True), (ENTERPRISE, True)],
      data_coverage = [STOCKS, FOREX, COMMODITIES],
      frequency_support = [EOD, HISTORICAL],
      rate_limits = [(''requests_per_minute'', 300), (''requests_per_day'', 50000)],
      strengths =
        [''Premium institutional-grade data'',
         ''Extensive alternative datasets'',
         ''High data quality and accuracy'',
         ''Excellent for quantitative research'',
         ''Strong data governance and compliance''],
      limitations =
        [''No free tier available'',
         ''Premium pricing (starts ~$100/month)'',
         ''No real-time data'',
         ''No crypto data'',
         ''No options data''],
      tos_restrictions =
        [''Commercial use included in subscription'',
         ''Data redistribution strictly prohibited'',
         ''Must comply with Nasdaq data policies'',
         ''Audit rights reserved by provider''],
      reliability_score = 95 / 100,
      last_updated = (2025, 1, 10)\<rparr>"

definition marketstack :: APIInfo where
  "marketstack =
     \<lparr>name = ''Marketstack'',
      pricing = [(FREE, True), (UNDER_50, True), (UNDER_200, True), (ENTERPRISE, True)],
      data_coverage = [STOCKS],
      frequency_support = [DELAYED, EOD, HISTORICAL],
      rate_limits = [(''requests_per_minute'', 10), (''requests_per_day'', 100)],
      strengths =
        [''Simple REST API design'',
         ''Good for beginners'',
         ''Global stock market coverage'',
         ''Easy integration'',
         ''Clear documentation''],
      limitations =
        [''Stocks only - no crypto, forex, options'',
         ''Very limited free tier (100 req/day)'',
         ''No real-time data'',
         ''Basic feature set compared to competitors'',
         ''Limited technical indicators''],
      tos_restrictions =
        [''Free tier for non-commercial use only'',
         ''Commercial use requires paid plan'',
         ''No data redistribution'',
         ''Attribution appreciated but not required''],
      reliability_score = 78 / 100,
      last_updated = (2025, 1, 10)\<rparr>"

definition get_all_apis :: "APIInfo list" where
  "get_all_apis =
     [alpha_vantage, polygon_io, yahoo_finance, finnhub, eodhd, quandl, marketstack]"

subsection \<open>Scoring weights\<close>

definition SCORING_WEIGHTS :: "(string \<times> rat) list" where
  "SCORING_WEIGHTS =
     [(''budget'', 30 / 100), (''data_types'', 30 / 100), (''frequency'', 25 / 100),
      (''use_case'', 15 / 100)]"

subsection \<open>Category scores\<close>

definition score_budget_compatibility :: "APIInfo \<Rightarrow> UserConstraints \<Rightarrow> rat" where
  "score_budget_compatibility a c = (if dict_get (pricing a) (budget c) False then 100 else 0)"

definition score_data_type_coverage :: "APIInfo \<Rightarrow> UserConstraints \<Rightarrow> rat" where
  "score_data_type_coverage a c =
     (if data_types c = [] then 100
      else (let covered = length (filter (\<lambda>dt. dt \<in> set (data_coverage a)) (data_types c))
            in (of_nat covered / of_nat (length (data_types c))) * 100))"

definition score_frequency_availability :: "APIInfo \<Rightarrow> UserConstraints \<Rightarrow> rat" where
  "score_frequency_availability a c =
     (if frequency c \<in> set (frequency_support a) then 100 else 0)"

definition commercial_use_cases :: "UseCase list" where
  "commercial_use_cases = [TRADING_BOT]"

text \<open>The keyword list local to \<^verbatim>\<open>score_use_case_suitability\<close>.\<close>

definition commercial_restricted_keywords :: "string list" where
  "commercial_restricted_keywords =
     [''commercial use explicitly prohibited'',
      ''non-commercial use only'',
      ''personal/educational use only'',
      ''free tier for non-commercial use only'']"

definition commercial_allowed_keywords :: "string list" where
  "commercial_allowed_keywords = [''commercial use allowed'', ''commercial use included'']"

text \<open>
  The nested loop \<^verbatim>\<open>for restriction in ...: for keyword in ...: if keyword in
  restriction.lower(): return ...\<close>: it returns at the first hit, so all that matters is
  whether some restriction holds some keyword.
\<close>

definition keyword_hit :: "string list \<Rightarrow> string list \<Rightarrow> bool" where
  "keyword_hit keywords texts =
     list_ex (\<lambda>t. list_ex (\<lambda>keyword. sublist keyword (lower t)) keywords) texts"

definition score_use_case_suitability :: "APIInfo \<Rightarrow> UserConstraints \<Rightarrow> rat" where
  "score_use_case_suitability a c =
     (if use_case c \<in> set commercial_use_cases then
        (if keyword_hit commercial_restricted_keywords (tos_restrictions a) then 25
         else if keyword_hit commercial_allowed_keywords (tos_restrictions a) then 100
         else 75)
      else 100)"

definition calculate_category_scores :: "APIInfo \<Rightarrow> UserConstraints \<Rightarrow> (string \<times> rat) list" where
  "calculate_category_scores a c =
     [(''budget'', score_budget_compatibility a c),
      (''data_types'', score_data_type_coverage a c),
      (''frequency'', score_frequency_availability a c),
      (''use_case'', score_use_case_suitability a c)]"

definition calculate_total_score ::
  "(string \<times> rat) list \<Rightarrow> (string \<times> rat) list option \<Rightarrow> rat" where
  "calculate_total_score scores weights_arg =
     (let weights = (case weights_arg of None \<Rightarrow> SCORING_WEIGHTS | Some w \<Rightarrow> w)
      in foldl (\<lambda>acc (category, score). acc + score * dict_get weights category 0) 0 scores)"

definition calculate_compatibility_percentage :: "rat \<Rightarrow> int" where
  "calculate_compatibility_percentage t = max 0 (min 100 (py_round t))"

subsection \<open>Scoring and ranking (\<^verbatim>\<open>score_apis\<close>)\<close>

datatype error = AttributeError | ValueError string

text \<open>
  A dataclass does not check the types of its fields, so the list handed to
  \<^verbatim>\<open>score_apis\<close> can hold an \<^verbatim>\<open>APIInfo\<close> whose fields are not what the annotations say.
  \<open>Malformed n\<close> is such a record, named \<open>n\<close>, whose \<^verbatim>\<open>pricing\<close> is not a dict (\<^verbatim>\<open>None\<close>,
  say): \<^verbatim>\<open>api.pricing.get\<close>, the first thing \<^verbatim>\<open>calculate_category_scores\<close> evaluates,
  raises AttributeError on it. On a well-formed record no statement of the loop body
  raises.
\<close>

datatype catalog_entry = WellFormed APIInfo | Malformed string

text \<open>The body of the inner \<^verbatim>\<open>try\<close>: the score of one entry, rank not yet assigned.\<close>

definition score_entry :: "UserConstraints \<Rightarrow> catalog_entry \<Rightarrow> error + APIScore" where
  "score_entry c e =
     (case e of
        Malformed n \<Rightarrow> Inl AttributeError
      | WellFormed a \<Rightarrow>
          (let cs = calculate_category_scores a c;
               ts = calculate_total_score cs None;
               compatibility = calculate_compatibility_percentage ts
           in Inr \<lparr>api = a, total_score = ts, category_scores = cs,
                    compatibility_percentage = compatibility, recommendation_rank = 0\<rparr>))"

text \<open>
  The \<^verbatim>\<open>for api in apis\<close> loop: an entry whose scoring raises is logged and skipped
  (\<^verbatim>\<open>except Exception: continue\<close>), any other is appended to \<^verbatim>\<open>scored_apis\<close>.
\<close>

fun score_loop :: "UserConstraints \<Rightarrow> catalog_entry list \<Rightarrow> APIScore list \<Rightarrow> APIScore list" where
  "score_loop c [] scored_apis = scored_apis"
| "score_loop c (e # es) scored_apis =
     (case score_entry c e of
        Inl err \<Rightarrow> score_loop c es scored_apis
      | Inr s \<Rightarrow> score_loop c es (scored_apis @ [s]))"

text \<open>\<^verbatim>\<open>for rank, scored_api in enumerate(scored_apis, start=1)\<close>.\<close>

fun assign_ranks :: "int \<Rightarrow> APIScore list \<Rightarrow> APIScore list" where
  "assign_ranks rank [] = []"
| "assign_ranks rank (s # ss) = s\<lparr>recommendation_rank := rank\<rparr> # assign_ranks (rank + 1) ss"

definition score_apis :: "UserConstraints \<Rightarrow> catalog_entry list option \<Rightarrow> error + APIScore list" where
  "score_apis c apis_arg =
     (let apis = (case apis_arg of None \<Rightarrow> map WellFormed get_all_apis | Some l \<Rightarrow> l);
          scored_apis = score_loop c apis []
      in if scored_apis = []
         then Inl (ValueError ''Unable to score any APIs - all scoring attempts failed'')
         else Inr (assign_ranks 1 (sort_desc total_score scored_apis)))"

subsection \<open>The verdict generator's limitation checks\<close>

definition LOW_RELIABILITY_THRESHOLD :: rat where
  "LOW_RELIABILITY_THRESHOLD = 70 / 100"

definition SIGNIFICANT_LIMITATION_KEYWORDS :: "string list" where
  "SIGNIFICANT_LIMITATION_KEYWORDS =
     [''commercial use explicitly prohibited'',
      ''non-commercial use only'',
      ''personal/educational use only'',
      ''unofficial api'',
      ''may break without notice'']"

text \<open>The keyword list local to \<^verbatim>\<open>has_tos_restrictions_for_use_case\<close>: one phrase longer.\<close>

definition tos_restricted_keywords :: "string list" where
  "tos_restricted_keywords =
     [''commercial use explicitly prohibited'',
      ''non-commercial use only'',
      ''personal/educational use only'',
      ''free tier for non-commercial use only'',
      ''free tier for personal/non-commercial use only'']"

definition has_tos_restrictions_for_use_case :: "APIInfo \<Rightarrow> UseCase \<Rightarrow> bool" where
  "has_tos_restrictions_for_use_case a uc =
     (if uc \<in> set commercial_use_cases
      then keyword_hit tos_restricted_keywords (tos_restrictions a)
      else False)"

definition has_significant_limitations :: "APIScore \<Rightarrow> UserConstraints \<Rightarrow> bool" where
  "has_significant_limitations api_score c =
     (let a = api api_score
      in if reliability_score a < LOW_RELIABILITY_THRESHOLD then True
         else if has_tos_restrictions_for_use_case a (use_case c) then True
         else keyword_hit SIGNIFICANT_LIMITATION_KEYWORDS (limitations a))"

definition get_limitation_reasons :: "APIScore \<Rightarrow> UserConstraints \<Rightarrow> string list" where
  "get_limitation_reasons api_score c =
     (let a = api api_score
      in (if reliability_score a < LOW_RELIABILITY_THRESHOLD
          then [''lower reliability score ('' @ str_int (py_int (reliability_score a * 100)) @ ''%)'']
          else [])
         @ (if has_tos_restrictions_for_use_case a (use_case c)
            then [''TOS restrictions that may conflict with your use case'']
            else [])
         @ (if list_ex (\<lambda>limitation. sublist ''unofficial api'' (lower limitation)
                                      \<or> sublist ''may break without notice'' (lower limitation))
                 (limitations a)
            then [''potential stability concerns (unofficial API)'']
            else []))"

subsection \<open>Next steps and trade-offs\<close>

text \<open>The possessive suffix of the f-strings, \<^verbatim>\<open>{api.name}'s\<close>.\<close>

definition possessive :: "string \<Rightarrow> string" where
  "possessive n = n @ [CHR 0x27, CHR ''s'']"

definition generate_next_steps :: "APIInfo \<Rightarrow> UserConstraints \<Rightarrow> string list" where
  "generate_next_steps a c =
     [if budget c = FREE
      then ''Sign up for a free '' @ name a @ '' account and get your API key''
      else ''Visit '' @ possessive (name a) @ '' pricing page and select the ''
             @ budget_value (budget c) @ '' plan'']
     @ [''Review '' @ possessive (name a) @ '' API documentation for ''
          @ join '', '' (map data_type_value (data_types c)) @ '' endpoints'']
     @ (if rate_limits a \<noteq> []
        then [''Plan your request strategy around the ''
               @ (case map_of (rate_limits a) ''requests_per_minute'' of
                    Some rpm \<Rightarrow> str_int rpm
                  | None \<Rightarrow> ''N/A'')
               @ '' requests/minute rate limit'']
        else [])
     @ (if tos_restrictions a \<noteq> []
        then [if use_case c = TRADING_BOT
              then ''Review the Terms of Service to ensure compliance with commercial use requirements''
              else ''Review the Terms of Service for any attribution or usage requirements'']
        else [])"

text \<open>
  \<^verbatim>\<open>second_only\<close> is a Python set, and the language does not fix the order in which
  \<^verbatim>\<open>join\<close> walks it; here its members come in the order of the runner-up's
  \<^verbatim>\<open>data_coverage\<close>. No property below depends on that order.
\<close>

definition generate_trade_offs :: "APIScore \<Rightarrow> APIScore \<Rightarrow> UserConstraints \<Rightarrow> string list" where
  "generate_trade_offs top_api runner_up c =
     (let top = api top_api;
          second = api runner_up;
          top_rpm = dict_get (rate_limits top) ''requests_per_minute'' 0;
          second_rpm = dict_get (rate_limits second) ''requests_per_minute'' 0;
          second_only = remdups (filter (\<lambda>dt. dt \<notin> set (data_coverage top)) (data_coverage second))
      in (if reliability_score top < reliability_score second
          then [''Choose **'' @ name second @ ''** if you need higher reliability (''
                 @ str_int (py_int (reliability_score second * 100)) @ ''% vs ''
                 @ str_int (py_int (reliability_score top * 100)) @ ''%)'']
          else [])
         @ (if top_rpm < second_rpm
            then [''Choose **'' @ name second @ ''** if you need higher rate limits (''
                   @ str_int second_rpm @ '' vs '' @ str_int top_rpm @ '' requests/minute)'']
            else [])
         @ (if second_only \<noteq> []
            then [''Choose **'' @ name second @ ''** if you also need ''
                   @ join '', '' (map data_type_value second_only) @ '' data'']
            else [])
         @ (if budget c = FREE \<and> dict_get (pricing top) FREE False
               \<and> \<not> dict_get (pricing second) FREE False
            then [''**'' @ name top @ ''** offers a free tier while **'' @ name second
                   @ ''** requires payment'']
            else [])
         @ (if strengths top \<noteq> [] \<and> strengths second \<noteq> []
            then [''**'' @ name top @ ''** excels at: '' @ lower (hd (strengths top))]
            else []))"

subsection \<open>The verdict (\<^verbatim>\<open>generate_verdict\<close>)\<close>

text \<open>
  On records of the declared types no step of \<^verbatim>\<open>generate_verdict\<close> raises, so its
  \<^verbatim>\<open>except\<close> branches (the local ones and the last-resort verdict) are never entered and
  have no counterpart here.
\<close>

definition recommendation_parts :: "APIScore \<Rightarrow> UserConstraints \<Rightarrow> string list" where
  "recommendation_parts winner c =
     [''**'' @ name (api winner) @ ''** is your best match with a **''
        @ str_int (compatibility_percentage winner) @ ''% compatibility score**.'']
     @ (if strengths (api winner) \<noteq> []
        then [''Key advantage: '' @ hd (strengths (api winner))]
        else [])
     @ (if budget c = FREE
        then (if dict_get (pricing (api winner)) FREE False
              then [''This API offers a **free tier** that meets your budget requirements.'']
              else [])
        else [''This API supports your **'' @ budget_value (budget c) @ ''** budget tier.''])"

text \<open>The block that fills \<^verbatim>\<open>alternative_api\<close> and \<^verbatim>\<open>alternative_reason\<close>, as a pair.\<close>

definition alternative_for ::
  "APIScore \<Rightarrow> APIScore option \<Rightarrow> UserConstraints \<Rightarrow> string \<times> string" where
  "alternative_for winner runner_up c =
     (case runner_up of
        None \<Rightarrow> ([], [])
      | Some r \<Rightarrow>
          if has_significant_limitations winner c then
            (let limitation_reasons = get_limitation_reasons winner c
             in if limitation_reasons \<noteq> [] then
                  (name (api r),
                   ''Consider **'' @ name (api r) @ ''** as an alternative due to ''
                     @ possessive (name (api winner)) @ '' ''
                     @ join '' and '' limitation_reasons @ ''. ''
                     @ name (api r) @ '' has a '' @ str_int (compatibility_percentage r)
                     @ ''% compatibility score and ''
                     @ str_int (py_int (reliability_score (api r) * 100)) @ ''% reliability.'')
                else ([], []))
          else ([], []))"

definition generate_verdict :: "APIScore list \<Rightarrow> UserConstraints \<Rightarrow> Verdict" where
  "generate_verdict top_apis c =
     (case top_apis of
        [] \<Rightarrow>
          \<lparr>recommendation_text = ''No APIs available for evaluation.'',
           trade_offs = [],
           next_steps = [''Please check your constraints and try again.''],
           alternative_api = [],
           alternative_reason = []\<rparr>
      | winner # others \<Rightarrow>
          (let runner_up = (case others of [] \<Rightarrow> None | r # _ \<Rightarrow> Some r);
               alternative = alternative_for winner runner_up c
           in \<lparr>recommendation_text = join '' '' (recommendation_parts winner c),
                trade_offs = (case runner_up of
                                None \<Rightarrow> []
                              | Some r \<Rightarrow> generate_trade_offs winner r c),
                next_steps = generate_next_steps (api winner) c,
                alternative_api = fst alternative,
                alternative_reason = snd alternative\<rparr>))"

subsection \<open>Fallback recommendations (\<^verbatim>\<open>get_fallback_recommendations\<close>)\<close>







subsection \<open>\<^verbatim>\<open>score_apis\<close> with its clock reads and its log\<close>

text \<open>
  \<^verbatim>\<open>score_apis\<close> reads \<^verbatim>\<open>time.time()\<close> several times and writes what it measures to the
  logger. Here the clock is a function from the number of reads made so far to the
  reading (a float, so a rational), and the state threaded through the call holds that
  count and the log records written so far.
\<close>

datatype log_record =
    InfoScoring nat
  | DebugScored string rat int rat
  | ErrorScoring string error
  | ErrorNoneScored
  | InfoRanked nat rat rat
  | WarningPerformanceIssue rat
  | InfoPerformanceSlow rat
  | DebugPerformanceGood rat
  | ErrorCritical rat error nat

record runtime =
  clock_reads :: nat
  emitted :: "log_record list"

definition time_time :: "(nat \<Rightarrow> rat) \<Rightarrow> runtime \<Rightarrow> rat \<times> runtime" where
  "time_time clock w = (clock (clock_reads w), w\<lparr>clock_reads := Suc (clock_reads w)\<rparr>)"

definition logger :: "log_record \<Rightarrow> runtime \<Rightarrow> runtime" where
  "logger r w = w\<lparr>emitted := emitted w @ [r]\<rparr>"

definition entry_name :: "catalog_entry \<Rightarrow> string" where
  "entry_name e = (case e of WellFormed a \<Rightarrow> name a | Malformed n \<Rightarrow> n)"

text \<open>
  The loop again, each iteration reading the clock before it scores the entry and, when
  the scoring did not raise, once more after the append.
\<close>

fun score_loop_timed ::
  "(nat \<Rightarrow> rat) \<Rightarrow> UserConstraints \<Rightarrow> catalog_entry list \<Rightarrow> APIScore list \<Rightarrow> runtime
     \<Rightarrow> APIScore list \<times> runtime" where
  "score_loop_timed clock c [] scored_apis w = (scored_apis, w)"
| "score_loop_timed clock c (e # es) scored_apis w =
     (case time_time clock w of
        (api_start_time, w1) \<Rightarrow>
          (case score_entry c e of
             Inl err \<Rightarrow>
               score_loop_timed clock c es scored_apis (logger (ErrorScoring (entry_name e) err) w1)
           | Inr s \<Rightarrow>
               (case time_time clock w1 of
                  (now, w2) \<Rightarrow>
                    score_loop_timed clock c es (scored_apis @ [s])
                      (logger (DebugScored (name (api s)) (total_score s)
                                 (compatibility_percentage s) (now - api_start_time)) w2))))"

definition score_apis_timed ::
  "(nat \<Rightarrow> rat) \<Rightarrow> UserConstraints \<Rightarrow> catalog_entry list option \<Rightarrow> runtime
     \<Rightarrow> (error + APIScore list) \<times> runtime" where
  "score_apis_timed clock c apis_arg w =
     (case time_time clock w of
        (start_time, w0) \<Rightarrow>
          (let apis = (case apis_arg of None \<Rightarrow> map WellFormed get_all_apis | Some l \<Rightarrow> l);
               w1 = logger (InfoScoring (length apis)) w0
           in case score_loop_timed clock c apis [] w1 of
                (scored_apis, w2) \<Rightarrow>
                  if scored_apis = [] then
                    (let w3 = logger ErrorNoneScored w2;
                         e = ValueError ''Unable to score any APIs - all scoring attempts failed''
                     in case time_time clock w3 of
                          (now, w4) \<Rightarrow>
                            (Inl e, logger (ErrorCritical (now - start_time) e (length apis)) w4))
                  else
                    (case time_time clock w2 of
                       (sort_start_time, w3) \<Rightarrow>
                         (let sorted_apis = sort_desc total_score scored_apis
                          in case time_time clock w3 of
                               (sort_end, w4) \<Rightarrow>
                                 (let sort_time = sort_end - sort_start_time;
                                      ranked = assign_ranks 1 sorted_apis
                                  in case time_time clock w4 of
                                       (now, w5) \<Rightarrow>
                                         (let total_time = now - start_time;
                                              w6 = logger (InfoRanked (length ranked) total_time
                                                             sort_time) w5;
                                              w7 = logger
                                                     (if total_time > 2
                                                      then WarningPerformanceIssue total_time
                                                      else if total_time > 1
                                                      then InfoPerformanceSlow total_time
                                                      else DebugPerformanceGood total_time) w6
                                          in (Inr ranked, w7)))))))"

subsection \<open>\<^verbatim>\<open>score_apis\<close> over a heap of objects\<close>

text \<open>
  Python passes objects by reference, and \<^verbatim>\<open>score_apis\<close> assigns to an attribute
  (\<^verbatim>\<open>scored_api.recommendation_rank = rank\<close>). To see which objects that assignment can
  reach, the objects live in a heap here: a list, an object's address being its index.
  An \<^verbatim>\<open>APIInfo\<close> object holds its record; a dataclass instance accepts new attributes, so
  it also has a slot for a \<^verbatim>\<open>recommendation_rank\<close> attribute, empty unless one was ever
  set on it. An \<^verbatim>\<open>APIScore\<close> object holds the address of its \<^verbatim>\<open>api\<close> and its four other
  fields, in the order of the dataclass.
\<close>

datatype obj =
    InfoObj catalog_entry "int option"
  | ScoreObj nat rat "(string \<times> rat) list" int int

type_synonym heap = "obj list"

definition alloc :: "obj \<Rightarrow> heap \<Rightarrow> nat \<times> heap" where
  "alloc x h = (length h, h @ [x])"

text \<open>\<^verbatim>\<open>x.recommendation_rank = rank\<close>, on either kind of object.\<close>

definition set_recommendation_rank :: "int \<Rightarrow> obj \<Rightarrow> obj" where
  "set_recommendation_rank rank x =
     (case x of
        InfoObj e r \<Rightarrow> InfoObj e (Some rank)
      | ScoreObj a ts cs compatibility r \<Rightarrow> ScoreObj a ts cs compatibility rank)"

text \<open>\<^verbatim>\<open>getattr(x, "recommendation_rank", None)\<close>.\<close>

definition get_recommendation_rank :: "obj \<Rightarrow> int option" where
  "get_recommendation_rank x =
     (case x of
        InfoObj e r \<Rightarrow> r
      | ScoreObj a ts cs compatibility r \<Rightarrow> Some r)"

definition is_score :: "obj \<Rightarrow> bool" where
  "is_score x = (case x of InfoObj e r \<Rightarrow> False | ScoreObj a ts cs compatibility r \<Rightarrow> True)"

text \<open>
  The sort key \<^verbatim>\<open>lambda x: x.total_score\<close>, read through the address. The list that is
  sorted holds addresses of \<^verbatim>\<open>APIScore\<close> objects only; the other two branches give the
  function a value everywhere.
\<close>

definition total_score_at :: "heap \<Rightarrow> nat \<Rightarrow> rat" where
  "total_score_at h p =
     (if p < length h
      then (case h ! p of
              InfoObj e r \<Rightarrow> 0
            | ScoreObj a ts cs compatibility r \<Rightarrow> ts)
      else 0)"

text \<open>
  The loop. An element of \<^verbatim>\<open>apis\<close> that is an \<^verbatim>\<open>APIInfo\<close> is scored as before, and the
  new \<^verbatim>\<open>APIScore\<close> object refers to it. An element that is an \<^verbatim>\<open>APIScore\<close> has no
  \<^verbatim>\<open>pricing\<close>, so the scoring raises AttributeError; the handler's message then reads
  \<^verbatim>\<open>api.name\<close>, which the object does not have either, and this second AttributeError
  leaves the loop and the function. An address outside the heap is no Python value; the
  function stops there in the same way.
\<close>

fun score_loop_heap ::
  "UserConstraints \<Rightarrow> nat list \<Rightarrow> nat list \<Rightarrow> heap \<Rightarrow> (error + nat list) \<times> heap" where
  "score_loop_heap c [] scored_apis h = (Inr scored_apis, h)"
| "score_loop_heap c (a # as) scored_apis h =
     (if a < length h
      then (case h ! a of
              InfoObj e r \<Rightarrow>
                (case score_entry c e of
                   Inl err \<Rightarrow> score_loop_heap c as scored_apis h
                 | Inr s \<Rightarrow>
                     (case alloc (ScoreObj a (total_score s) (category_scores s)
                                    (compatibility_percentage s) 0) h of
                        (p, h') \<Rightarrow> score_loop_heap c as (scored_apis @ [p]) h'))
            | ScoreObj a' ts cs compatibility r \<Rightarrow> (Inl AttributeError, h))
      else (Inl AttributeError, h))"

text \<open>\<^verbatim>\<open>for rank, scored_api in enumerate(scored_apis, start=1)\<close>, assigning in place.\<close>

fun assign_ranks_heap :: "int \<Rightarrow> nat list \<Rightarrow> heap \<Rightarrow> heap" where
  "assign_ranks_heap rank [] h = h"
| "assign_ranks_heap rank (p # ps) h =
     assign_ranks_heap (rank + 1) ps (h[p := set_recommendation_rank rank (h ! p)])"

text \<open>
  \<^verbatim>\<open>apis\<close> itself is a list of addresses; the function takes its length and iterates over
  it, nothing else. When it is \<^verbatim>\<open>None\<close>, \<^verbatim>\<open>get_all_apis()\<close> builds seven new objects.
\<close>

definition resolve_apis :: "nat list option \<Rightarrow> heap \<Rightarrow> nat list \<times> heap" where
  "resolve_apis apis_arg h =
     (case apis_arg of
        None \<Rightarrow> ([length h..<length h + length get_all_apis],
                  h @ map (\<lambda>a. InfoObj (WellFormed a) None) get_all_apis)
      | Some l \<Rightarrow> (l, h))"

definition score_apis_heap ::
  "UserConstraints \<Rightarrow> nat list option \<Rightarrow> heap \<Rightarrow> (error + nat list) \<times> heap" where
  "score_apis_heap c apis_arg h =
     (case resolve_apis apis_arg h of
        (apis, h0) \<Rightarrow>
          (case score_loop_heap c apis [] h0 of
             (Inl err, h1) \<Rightarrow> (Inl err, h1)
           | (Inr scored_apis, h1) \<Rightarrow>
               if scored_apis = []
               then (Inl (ValueError ''Unable to score any APIs - all scoring attempts failed''), h1)
               else (let sorted_apis = sort_desc (total_score_at h1) scored_apis
                     in (Inr sorted_apis, assign_ranks_heap 1 sorted_apis h1))))"

subsection \<open>Records for the Free-tier scenario\<close>

text \<open>
  Two providers in the shape of the catalog's records: "Alpha" is the only one with a Free
  tier and covers neither Stocks nor End-of-day data; "Beta" has no Free tier and covers
  both. \<open>alpha_stocks\<close> is "Alpha" covering Stocks.
\<close>

definition alpha_free_only :: APIInfo where
  "alpha_free_only =
     \<lparr>name = ''Alpha'',
      pricing = [(FREE, True), (UNDER_50, False), (UNDER_200, False), (ENTERPRISE, False)],
      data_coverage = [CRYPTO],
      frequency_support = [REALTIME],
      rate_limits = [(''requests_per_minute'', 5)],
      strengths = [''Free of charge''],
      limitations = [],
      tos_restrictions = [],
      reliability_score = 90 / 100,
      last_updated = (2025, 1, 10)\<rparr>"

definition beta_paid :: APIInfo where
  "beta_paid =
     \<lparr>name = ''Beta'',
      pricing = [(FREE, False), (UNDER_50, True), (UNDER_200, True), (ENTERPRISE, True)],
      data_coverage = [STOCKS],
      frequency_support = [EOD],
      rate_limits = [(''requests_per_minute'', 5)],
      strengths = [''End-of-day stock prices''],
      limitations = [],
      tos_restrictions = [],
      reliability_score = 90 / 100,
      last_updated = (2025, 1, 10)\<rparr>"

definition alpha_stocks :: APIInfo where
  "alpha_stocks = alpha_free_only\<lparr>data_coverage := [STOCKS]\<rparr>"

text \<open>A heap with the two records of the scenario, for a call that is handed one of them twice.\<close>

definition demo_heap :: heap where
  "demo_heap = [InfoObj (WellFormed alpha_stocks) None, InfoObj (WellFormed beta_paid) None]"

section \<open>Properties\<close>

subsection \<open>Compatibility percentage\<close>

lemma py_round_near: "\<bar>of_int (py_round x) - x\<bar> \<le> 1 / 2"
proof -
  define f where "f = \<lfloor>x\<rfloor>"
  have lo: "of_int f \<le> x" and hi: "x < of_int f + 1"
    unfolding f_def by linarith+
  have "py_round x = f \<and> x - of_int f \<le> 1 / 2 \<or> py_round x = f + 1 \<and> 1 / 2 \<le> x - of_int f"
    unfolding py_round_def Let_def f_def [symmetric] by auto
  with lo hi show ?thesis
    by (auto simp: abs_if)
qed

lemma py_round_mono_int: "of_int k \<le> x \<Longrightarrow> k \<le> py_round x"
proof -
  assume "of_int k \<le> x"
  then have "k \<le> \<lfloor>x\<rfloor>" by (simp add: le_floor_iff)
  then show ?thesis by (auto simp: py_round_def Let_def)
qed

lemma py_round_le_int: "x \<le> of_int k \<Longrightarrow> py_round x \<le> k"
proof (cases "x = of_int k")
  case True
  then show ?thesis by (simp add: py_round_def)
next
  case False
  assume "x \<le> of_int k"
  with False have lt: "x < of_int k" by simp
  then have "\<lfloor>x\<rfloor> < k" by (simp add: floor_less_iff)
  then show ?thesis by (auto simp: py_round_def Let_def)
qed

text \<open>
  C2: on every finite input \<open>calculate_compatibility_percentage\<close> returns
  \<open>clamp(round(total_score), 0, 100)\<close> (it is a total function, no branch raises): an input
  below 0 gives 0, an input above 100 gives 100, and an input in [0, 100] gives Python's
  rounding of the input, an integer at distance at most 1/2 from it and so a nearest
  integer.
\<close>

theorem compatibility_percentage_clamp:
  "calculate_compatibility_percentage t = max 0 (min 100 (py_round t))
   \<and> (t < 0 \<longrightarrow> calculate_compatibility_percentage t = 0)
   \<and> (100 < t \<longrightarrow> calculate_compatibility_percentage t = 100)
   \<and> (0 \<le> t \<and> t \<le> 100 \<longrightarrow>
        calculate_compatibility_percentage t = py_round t
        \<and> \<bar>of_int (calculate_compatibility_percentage t) - t\<bar> \<le> 1 / 2
        \<and> (\<forall>k. \<bar>of_int (calculate_compatibility_percentage t) - t\<bar> \<le> \<bar>of_int k - t\<bar>))"
proof -
  have neg: "py_round t \<le> 0" if "t < 0"
    using py_round_le_int [of t 0] that by simp
  have big: "100 \<le> py_round t" if "100 < t"
    using py_round_mono_int [of 100 t] that by simp
  have mid: "0 \<le> py_round t \<and> py_round t \<le> 100" if "0 \<le> t" "t \<le> 100"
    using py_round_mono_int [of 0 t] py_round_le_int [of t 100] that by simp
  have nearest: "\<bar>of_int (py_round t) - t\<bar> \<le> \<bar>of_int k - t\<bar>" for k
  proof (cases "k = py_round t")
    case True
    then show ?thesis by simp
  next
    case False
    then have "k \<le> py_round t - 1 \<or> py_round t + 1 \<le> k" by linarith
    then have "of_int k \<le> (of_int (py_round t) :: rat) - 1 \<or> (of_int (py_round t) :: rat) + 1 \<le> of_int k"
      by (metis of_int_1 of_int_add of_int_diff of_int_le_iff)
    with py_round_near [of t] show ?thesis by (auto simp: abs_if split: if_splits)
  qed
  show ?thesis
    using neg big mid nearest py_round_near [of t]
    by (auto simp: calculate_compatibility_percentage_def)
qed

theorem compatibility_percentage_clamp_witness:
  "calculate_compatibility_percentage (- 7 / 2) = 0
   \<and> calculate_compatibility_percentage (201 / 2) = 100
   \<and> calculate_compatibility_percentage (5 / 2) = 2
   \<and> calculate_compatibility_percentage (7 / 2) = 4
   \<and> calculate_compatibility_percentage (227 / 3) = 76"
proof -
  have a: "calculate_compatibility_percentage (- 7 / 2) = 0"
    using compatibility_percentage_clamp [of "- 7 / 2"] by simp
  have b: "calculate_compatibility_percentage (201 / 2) = 100"
    using compatibility_percentage_clamp [of "201 / 2"] by simp
  have r: "py_round (5 / 2) = 2" "py_round (7 / 2) = 4" "py_round (227 / 3) = 76"
    by code_simp+
  have c: "calculate_compatibility_percentage (5 / 2) = 2"
    using compatibility_percentage_clamp [of "5 / 2"] r by simp
  have d: "calculate_compatibility_percentage (7 / 2) = 4"
    using compatibility_percentage_clamp [of "7 / 2"] r by simp
  have e: "calculate_compatibility_percentage (227 / 3) = 76"
    using compatibility_percentage_clamp [of "227 / 3"] r by simp
  from a b c d e show ?thesis by simp
qed

subsection \<open>The two commercial-restriction phrase lists\<close>

lemma personal_phrase_holds_non_commercial:
  assumes "sublist ''free tier for personal/non-commercial use only'' s"
  shows "sublist ''non-commercial use only'' s"
proof -
  have "sublist ''non-commercial use only'' ''free tier for personal/non-commercial use only''"
    by code_simp
  from this assms show ?thesis
    by (rule sublist_order.order.trans)
qed

lemma keyword_hit_same_phrases:
  "keyword_hit tos_restricted_keywords ts = keyword_hit commercial_restricted_keywords ts"
  unfolding keyword_hit_def tos_restricted_keywords_def commercial_restricted_keywords_def
  by (induction ts) (auto dest: personal_phrase_holds_non_commercial)

text \<open>
  C7: for every APIInfo, \<open>has_tos_restrictions_for_use_case api TRADING_BOT\<close> is true if and
  only if \<open>score_use_case_suitability\<close> takes its penalty branch (returns 25) for that api
  under the Trading Bot use case. The verdict generator's list has one phrase more, "free
  tier for personal/non-commercial use only", but every text holding it holds
  "non-commercial use only" too, so both lists match the same restrictions.
\<close>

theorem tos_predicate_matches_penalty:
  "has_tos_restrictions_for_use_case a TRADING_BOT
     = (score_use_case_suitability a (c\<lparr>use_case := TRADING_BOT\<rparr>) = 25)
   \<and> has_tos_restrictions_for_use_case a TRADING_BOT
     = keyword_hit commercial_restricted_keywords (tos_restrictions a)"
  by (simp add: has_tos_restrictions_for_use_case_def score_use_case_suitability_def
      commercial_use_cases_def keyword_hit_same_phrases)

theorem tos_predicate_matches_penalty_witness:
  "has_tos_restrictions_for_use_case polygon_io TRADING_BOT
   \<and> score_use_case_suitability polygon_io
        \<lparr>budget = ENTERPRISE, data_types = [STOCKS], frequency = REALTIME, use_case = TRADING_BOT\<rparr> = 25
   \<and> \<not> has_tos_restrictions_for_use_case alpha_vantage TRADING_BOT
   \<and> score_use_case_suitability alpha_vantage
        \<lparr>budget = ENTERPRISE, data_types = [STOCKS], frequency = REALTIME, use_case = TRADING_BOT\<rparr> = 100"
proof -
  let ?c = "\<lparr>budget = ENTERPRISE, data_types = [STOCKS], frequency = REALTIME, use_case = RESEARCH\<rparr>"
  have p: "score_use_case_suitability polygon_io (?c\<lparr>use_case := TRADING_BOT\<rparr>) = 25"
    by code_simp
  have a: "score_use_case_suitability alpha_vantage (?c\<lparr>use_case := TRADING_BOT\<rparr>) = 100"
    by code_simp
  from p a tos_predicate_matches_penalty [of polygon_io ?c]
    tos_predicate_matches_penalty [of alpha_vantage ?c]
  show ?thesis by simp
qed
subsection \<open>Ranking\<close>

lemma score_loop_append:
  "score_loop c es acc = acc @ map projr (filter (\<lambda>r. \<not> isl r) (map (score_entry c) es))"
  by (induction es arbitrary: acc) (auto split: sum.splits)

lemma score_entry_WellFormed:
  "score_entry c (WellFormed a) =
     Inr \<lparr>api = a,
          total_score = calculate_total_score (calculate_category_scores a c) None,
          category_scores = calculate_category_scores a c,
          compatibility_percentage =
            calculate_compatibility_percentage
              (calculate_total_score (calculate_category_scores a c) None),
          recommendation_rank = 0\<rparr>"
  by (simp add: score_entry_def Let_def)

lemma score_entry_Malformed: "score_entry c (Malformed n) = Inl AttributeError"
  by (simp add: score_entry_def)

lemma assign_ranks_length: "length (assign_ranks r xs) = length xs"
  by (induction xs arbitrary: r) auto

lemma assign_ranks_map:
  assumes "\<And>s k. f (s\<lparr>recommendation_rank := k\<rparr>) = f s"
  shows "map f (assign_ranks r xs) = map f xs"
  using assms by (induction xs arbitrary: r) auto

lemma assign_ranks_filter:
  assumes "\<And>s k. f (s\<lparr>recommendation_rank := k\<rparr>) = f s"
    and "\<And>s k. P (s\<lparr>recommendation_rank := k\<rparr>) = P s"
  shows "map f (filter P (assign_ranks r xs)) = map f (filter P xs)"
  using assms by (induction xs arbitrary: r) auto

lemma assign_ranks_nth:
  "i < length xs \<Longrightarrow> assign_ranks r xs ! i = (xs ! i)\<lparr>recommendation_rank := r + int i\<rparr>"
proof (induction xs arbitrary: r i)
  case Nil
  then show ?case by simp
next
  case (Cons s ss)
  then show ?case by (cases i) (auto simp: algebra_simps)
qed

lemma assign_ranks_ranks:
  "map recommendation_rank (assign_ranks r xs) = map (\<lambda>i. r + int i) [0..<length xs]"
  by (rule nth_equalityI) (simp_all add: assign_ranks_length assign_ranks_nth)

lemma sort_desc_sorted: "sorted_wrt (\<lambda>x y. k y \<le> k x) (sort_desc k xs)"
proof -
  have "sorted (map (\<lambda>x. - k x) (sort_key (\<lambda>x. - k x) xs))"
    by (rule sorted_sort_key)
  then show ?thesis
    by (simp add: sort_desc_def sorted_map)
qed

lemma sort_desc_mset: "mset (sort_desc k xs) = mset xs"
  by (simp add: sort_desc_def)

lemma sort_desc_stable: "filter (\<lambda>x. k x = v) (sort_desc k xs) = filter (\<lambda>x. k x = v) xs"
proof -
  have "filter (\<lambda>x. - k x = - v) (sort_key (\<lambda>x. - k x) xs) = filter (\<lambda>x. - k x = - v) xs"
    by (rule sort_key_stable)
  then show ?thesis by (simp add: sort_desc_def)
qed

lemma sorted_wrt_assign_ranks:
  "sorted_wrt (\<lambda>x y. total_score y \<le> total_score x) (assign_ranks r xs)
     = sorted_wrt (\<lambda>x y. total_score y \<le> total_score x) xs"
proof -
  have "sorted_wrt (\<lambda>x y. total_score y \<le> total_score x) zs
          = sorted_wrt (\<lambda>x y. y \<le> x) (map total_score zs)" for zs :: "APIScore list"
    by (simp add: sorted_wrt_map)
  then show ?thesis by (simp add: assign_ranks_map)
qed

lemma sorted_wrt_desc_hd:
  fixes k :: "'a \<Rightarrow> rat"
  assumes "sorted_wrt (\<lambda>x y. k y \<le> k x) xs" and "x \<in> set xs"
  shows "k x \<le> k (hd xs)"
  using assms by (cases xs) auto

lemma score_apis_WellFormed:
  assumes "apis \<noteq> []"
  shows "score_apis c (Some (map WellFormed apis)) =
     Inr (assign_ranks 1 (sort_desc total_score (map (\<lambda>a. projr (score_entry c (WellFormed a))) apis)))"
proof -
  have "score_loop c (map WellFormed apis) [] = map (\<lambda>a. projr (score_entry c (WellFormed a))) apis"
    by (simp add: score_loop_append score_entry_WellFormed filter_map comp_def)
  with assms show ?thesis
    by (simp add: score_apis_def Let_def)
qed

lemma score_entry_rank0: "score_entry c e = Inr s \<Longrightarrow> s\<lparr>recommendation_rank := 0\<rparr> = s"
  by (cases e) (auto simp: score_entry_def Let_def)

lemma score_entry_projr:
  "score_entry c (WellFormed a) = Inr (projr (score_entry c (WellFormed a)))"
  by (simp add: score_entry_WellFormed)

text \<open>
  C1 (amended): for every user constraints value and every non-empty list of well-formed
  catalog entries, \<open>score_apis\<close> returns one APIScore per entry (each the entry's own
  score, only the rank filled in), sorted by \<open>total_score\<close> in descending order, the i-th
  element carrying \<open>recommendation_rank\<close> i (ranks 1..N), entries of equal \<open>total_score\<close>
  in their catalog order, and no element scoring above the first. On the empty list the
  call raises instead of returning.
\<close>

theorem score_apis_ranked:
  assumes "apis \<noteq> []"
  shows "\<exists>rs. score_apis c (Some (map WellFormed apis)) = Inr rs
      \<and> length rs = length apis
      \<and> mset (map (\<lambda>s. Inr (s\<lparr>recommendation_rank := 0\<rparr>)) rs)
            = mset (map (\<lambda>a. score_entry c (WellFormed a)) apis)
      \<and> sorted_wrt (\<lambda>s s'. total_score s' \<le> total_score s) rs
      \<and> map recommendation_rank rs = map int [1..<Suc (length rs)]
      \<and> (\<forall>v. map api (filter (\<lambda>s. total_score s = v) rs)
              = filter (\<lambda>a. calculate_total_score (calculate_category_scores a c) None = v) apis)
      \<and> (\<forall>s\<in>set rs. total_score s \<le> total_score (hd rs))"
proof -
  define sc where "sc = (\<lambda>a. projr (score_entry c (WellFormed a)))"
  define srt where "srt = sort_desc total_score (map sc apis)"
  define rs where "rs = assign_ranks 1 srt"
  have res: "score_apis c (Some (map WellFormed apis)) = Inr rs"
    using score_apis_WellFormed [OF assms] by (simp add: rs_def srt_def sc_def)
  have sc_eq: "score_entry c (WellFormed a) = Inr (sc a)" for a
    unfolding sc_def by (rule score_entry_projr)
  have sc_fields: "api (sc a) = a"
      "total_score (sc a) = calculate_total_score (calculate_category_scores a c) None" for a
    by (simp_all add: sc_def score_entry_WellFormed)
  have len: "length rs = length apis"
    by (simp add: rs_def srt_def assign_ranks_length sort_desc_def)
  have "map (\<lambda>s. s\<lparr>recommendation_rank := 0\<rparr>) (map sc apis) = map sc apis"
    using score_entry_rank0 [OF sc_eq] by simp
  then have "mset (map (\<lambda>s. s\<lparr>recommendation_rank := 0\<rparr>) srt) = mset (map sc apis)"
    unfolding srt_def by (metis mset_map sort_desc_mset)
  moreover have "map (\<lambda>s. s\<lparr>recommendation_rank := 0\<rparr>) rs = map (\<lambda>s. s\<lparr>recommendation_rank := 0\<rparr>) srt"
    unfolding rs_def by (rule assign_ranks_map) simp
  ultimately have "mset (map (\<lambda>s. s\<lparr>recommendation_rank := 0\<rparr>) rs) = mset (map sc apis)"
    by simp
  then have "image_mset Inr (mset (map (\<lambda>s. s\<lparr>recommendation_rank := 0\<rparr>) rs))
      = image_mset Inr (mset (map sc apis))"
    by simp
  then have one_each: "mset (map (\<lambda>s. Inr (s\<lparr>recommendation_rank := 0\<rparr>)) rs)
      = mset (map (\<lambda>a. score_entry c (WellFormed a)) apis)"
    by (simp add: sc_eq comp_def multiset.map_comp)
  have srt: "sorted_wrt (\<lambda>s s'. total_score s' \<le> total_score s) rs"
    unfolding rs_def srt_def by (simp add: sorted_wrt_assign_ranks sort_desc_sorted)
  have "map int [Suc 0..<Suc n] = map (\<lambda>i. 1 + int i) [0..<n]" for n
    by (simp add: map_Suc_upt [symmetric] del: upt_Suc)
  then have ranks: "map recommendation_rank rs = map int [1..<Suc (length rs)]"
    unfolding rs_def by (simp add: assign_ranks_ranks assign_ranks_length del: upt_Suc)
  have stable: "map api (filter (\<lambda>s. total_score s = v) rs)
      = filter (\<lambda>a. calculate_total_score (calculate_category_scores a c) None = v) apis" for v
  proof -
    have "map api (filter (\<lambda>s. total_score s = v) rs) = map api (filter (\<lambda>s. total_score s = v) srt)"
      unfolding rs_def by (rule assign_ranks_filter) simp_all
    also have "\<dots> = map api (filter (\<lambda>s. total_score s = v) (map sc apis))"
      unfolding srt_def by (simp add: sort_desc_stable)
    also have "\<dots> = filter (\<lambda>a. calculate_total_score (calculate_category_scores a c) None = v) apis"
      by (simp add: filter_map comp_def sc_fields)
    finally show ?thesis .
  qed
  have top: "\<forall>s\<in>set rs. total_score s \<le> total_score (hd rs)"
    using sorted_wrt_desc_hd [OF srt] by blast
  from res len one_each srt ranks stable top show ?thesis
    by blast
qed


theorem score_apis_ranked_witness:
  "[yahoo_finance, quandl] \<noteq> []
   \<and> (\<exists>rs. score_apis \<lparr>budget = FREE, data_types = [STOCKS], frequency = EOD, use_case = RESEARCH\<rparr>
               (Some (map WellFormed [yahoo_finance, quandl])) = Inr rs
          \<and> length rs = 2
          \<and> map recommendation_rank rs = [1, 2]
          \<and> sorted_wrt (\<lambda>s s'. total_score s' \<le> total_score s) rs)"
proof -
  have ne: "[yahoo_finance, quandl] \<noteq> []" by simp
  from score_apis_ranked [OF ne] obtain rs where
    "score_apis \<lparr>budget = FREE, data_types = [STOCKS], frequency = EOD, use_case = RESEARCH\<rparr>
       (Some (map WellFormed [yahoo_finance, quandl])) = Inr rs"
    "length rs = length [yahoo_finance, quandl]"
    "map recommendation_rank rs = map int [1..<Suc (length rs)]"
    "sorted_wrt (\<lambda>s s'. total_score s' \<le> total_score s) rs"
    by blast
  moreover have "map int [1..<Suc 2] = [1, 2]"
    by (simp add: upt_conv_Cons)
  ultimately show ?thesis
    by auto
qed

text \<open>The empty catalog: every entry (there is none) scores without error, and the call raises.\<close>

theorem score_apis_empty_catalog_raises:
  "score_apis \<lparr>budget = FREE, data_types = [STOCKS], frequency = EOD, use_case = RESEARCH\<rparr>
     (Some (map WellFormed []))
   = Inl (ValueError ''Unable to score any APIs - all scoring attempts failed'')"
  by (simp add: score_apis_def)

subsection \<open>Entries whose scoring raises\<close>





subsection \<open>The Free-tier scenario\<close>

lemma total_score_weighted:
  "calculate_total_score (calculate_category_scores a c) None =
     score_budget_compatibility a c * (30 / 100) + score_data_type_coverage a c * (30 / 100)
     + score_frequency_availability a c * (25 / 100) + score_use_case_suitability a c * (15 / 100)"
  by (simp add: calculate_total_score_def calculate_category_scores_def SCORING_WEIGHTS_def
      dict_get_def)

lemma data_type_coverage_stocks:
  "data_types c = [STOCKS] \<Longrightarrow>
     score_data_type_coverage a c = (if STOCKS \<in> set (data_coverage a) then 100 else 0)"
  by (simp add: score_data_type_coverage_def)

lemma total_scenario:
  "calculate_total_score
     (calculate_category_scores a
        \<lparr>budget = FREE, data_types = [STOCKS], frequency = EOD, use_case = RESEARCH\<rparr>) None
   = (if dict_get (pricing a) FREE False then 30 else 0)
     + (if STOCKS \<in> set (data_coverage a) then 30 else 0)
     + (if EOD \<in> set (frequency_support a) then 25 else 0) + 15"
  by (simp add: total_score_weighted score_budget_compatibility_def
      data_type_coverage_stocks score_frequency_availability_def
      score_use_case_suitability_def commercial_use_cases_def)

text \<open>
  C8 (amended): in every catalog whose only entry with a Free tier is named "Alpha",
  scoring Free / Stocks / End-of-day / Research gives "Alpha" budget category score 100;
  and if "Alpha" covers Stocks it is first, with \<open>recommendation_rank\<close> 1: it then scores
  at least 75, and an entry without a Free tier scores at most 70. Without Stocks "Alpha"
  can score 45 and lose to such an entry.
\<close>

theorem alpha_ranks_first:
  assumes only: "filter (\<lambda>a. dict_get (pricing a) FREE False) apis = [alpha]"
    and nm: "name alpha = ''Alpha''"
  shows "\<exists>rs. score_apis \<lparr>budget = FREE, data_types = [STOCKS], frequency = EOD, use_case = RESEARCH\<rparr>
                (Some (map WellFormed apis)) = Inr rs
           \<and> (\<forall>s\<in>set rs. api s = alpha \<longrightarrow> map_of (category_scores s) ''budget'' = Some 100)
           \<and> (STOCKS \<in> set (data_coverage alpha) \<longrightarrow>
                 api (hd rs) = alpha \<and> name (api (hd rs)) = ''Alpha''
                 \<and> recommendation_rank (hd rs) = 1)"
proof -
  let ?c = "\<lparr>budget = FREE, data_types = [STOCKS], frequency = EOD, use_case = RESEARCH\<rparr>"
  define sc where "sc = (\<lambda>a. projr (score_entry ?c (WellFormed a)))"
  define srt where "srt = sort_desc total_score (map sc apis)"
  define rs where "rs = assign_ranks 1 srt"
  have "alpha \<in> set (filter (\<lambda>a. dict_get (pricing a) FREE False) apis)"
    using only by simp
  then have alpha_in: "alpha \<in> set apis" and alpha_free: "dict_get (pricing alpha) FREE False"
    by simp_all
  have others: "\<not> dict_get (pricing a) FREE False" if "a \<in> set apis" "a \<noteq> alpha" for a
  proof
    assume "dict_get (pricing a) FREE False"
    with that(1) have "a \<in> set (filter (\<lambda>a. dict_get (pricing a) FREE False) apis)" by simp
    with only that(2) show False by simp
  qed
  from alpha_in have ne: "apis \<noteq> []" by auto
  have res: "score_apis ?c (Some (map WellFormed apis)) = Inr rs"
    using score_apis_WellFormed [OF ne] by (simp add: rs_def srt_def sc_def)
  have sc_api: "api (sc a) = a"
    and sc_cat: "category_scores (sc a) = calculate_category_scores a ?c"
    and sc_total: "total_score (sc a) = calculate_total_score (calculate_category_scores a ?c) None" for a
    by (simp_all add: sc_def score_entry_WellFormed)
  have set_srt: "set srt = sc ` set apis"
    by (simp add: srt_def sort_desc_def)
  have budget: "map_of (category_scores s) ''budget'' = Some 100" if "s \<in> set rs" "api s = alpha" for s
  proof -
    let ?f = "\<lambda>s. (api s, category_scores s)"
    have "map ?f rs = map ?f srt"
      unfolding rs_def by (rule assign_ranks_map) simp
    then have "set (map ?f rs) = set (map ?f srt)"
      by (rule arg_cong)
    moreover from that(1) have "?f s \<in> set (map ?f rs)"
      by (simp only: set_map) (rule imageI)
    ultimately have "?f s \<in> ?f ` sc ` set apis"
      by (simp only: set_map set_srt)
    then obtain a where "a \<in> set apis" "api s = api (sc a)" "category_scores s = category_scores (sc a)"
      by blast
    with that(2) have "category_scores s = calculate_category_scores alpha ?c"
      by (simp add: sc_api sc_cat)
    with alpha_free show ?thesis
      by (simp add: calculate_category_scores_def score_budget_compatibility_def)
  qed
  have first: "api (hd rs) = alpha \<and> name (api (hd rs)) = ''Alpha'' \<and> recommendation_rank (hd rs) = 1"
    if stocks: "STOCKS \<in> set (data_coverage alpha)"
  proof -
    have "length srt = length apis"
      by (simp add: srt_def sort_desc_def)
    with ne have srt_ne: "srt \<noteq> []"
      by auto
    then obtain h t where srt_eq: "srt = h # t" by (cases srt) auto
    then have hd_rs: "hd rs = h\<lparr>recommendation_rank := 1\<rparr>"
      by (simp add: rs_def)
    have "h \<in> set srt" using srt_eq by simp
    then obtain a where a: "a \<in> set apis" "h = sc a"
      by (auto simp: set_srt)
    have sorted: "sorted_wrt (\<lambda>x y. total_score y \<le> total_score x) srt"
      unfolding srt_def by (rule sort_desc_sorted)
    have "sc alpha \<in> set srt" using alpha_in by (simp add: set_srt)
    from sorted_wrt_desc_hd [OF sorted this] have le: "total_score (sc alpha) \<le> total_score (sc a)"
      using srt_eq a by simp
    have high: "75 \<le> total_score (sc alpha)"
      using alpha_free stocks by (simp add: sc_total total_scenario)
    have "a = alpha"
    proof (rule ccontr)
      assume "a \<noteq> alpha"
      with a(1) have "\<not> dict_get (pricing a) FREE False" by (rule others)
      then have "total_score (sc a) \<le> 70"
        by (simp add: sc_total total_scenario)
      with le high show False by simp
    qed
    with a hd_rs nm show ?thesis by (simp add: sc_api)
  qed
  from res budget first show ?thesis by blast
qed


theorem alpha_ranks_first_witness:
  "filter (\<lambda>a. dict_get (pricing a) FREE False) [quandl, alpha_stocks] = [alpha_stocks]
   \<and> name alpha_stocks = ''Alpha''
   \<and> STOCKS \<in> set (data_coverage alpha_stocks)
   \<and> (\<exists>rs. score_apis \<lparr>budget = FREE, data_types = [STOCKS], frequency = EOD, use_case = RESEARCH\<rparr>
                (Some (map WellFormed [quandl, alpha_stocks])) = Inr rs
          \<and> name (api (hd rs)) = ''Alpha'' \<and> recommendation_rank (hd rs) = 1)"
proof -
  have only: "filter (\<lambda>a. dict_get (pricing a) FREE False) [quandl, alpha_stocks] = [alpha_stocks]"
    by (simp add: quandl_def alpha_stocks_def alpha_free_only_def dict_get_def)
  have nm: "name alpha_stocks = ''Alpha''"
    by (simp add: alpha_stocks_def alpha_free_only_def)
  have st: "STOCKS \<in> set (data_coverage alpha_stocks)"
    by (simp add: alpha_stocks_def)
  from alpha_ranks_first [OF only nm] st only nm show ?thesis
    by blast
qed


text \<open>"Alpha" alone has a Free tier, scores 45 and is ranked second behind "Beta" with 70.\<close>

theorem alpha_not_first_counterexample:
  "filter (\<lambda>a. dict_get (pricing a) FREE False) [alpha_free_only, beta_paid] = [alpha_free_only]
   \<and> name alpha_free_only = ''Alpha''
   \<and> map_sum id (map (\<lambda>s. (name (api s), recommendation_rank s, total_score s)))
        (score_apis \<lparr>budget = FREE, data_types = [STOCKS], frequency = EOD, use_case = RESEARCH\<rparr>
           (Some [WellFormed alpha_free_only, WellFormed beta_paid]))
       = Inr [(''Beta'', 1, 70), (''Alpha'', 2, 45)]"
  by code_simp

subsection \<open>The verdict\<close>









lemma stability_phrases_significant:
  assumes "list_ex (\<lambda>l. sublist ''unofficial api'' (lower l)
                       \<or> sublist ''may break without notice'' (lower l)) ls"
  shows "keyword_hit SIGNIFICANT_LIMITATION_KEYWORDS ls"
  using assms
  unfolding keyword_hit_def SIGNIFICANT_LIMITATION_KEYWORDS_def list_ex_iff
  by auto

lemma reasons_nonempty_iff:
  "get_limitation_reasons w c \<noteq> [] \<longleftrightarrow>
     reliability_score (api w) < 70 / 100
     \<or> has_tos_restrictions_for_use_case (api w) (use_case c)
     \<or> list_ex (\<lambda>l. sublist ''unofficial api'' (lower l)
                    \<or> sublist ''may break without notice'' (lower l)) (limitations (api w))"
  by (simp add: get_limitation_reasons_def Let_def LOW_RELIABILITY_THRESHOLD_def)

lemma reasons_imply_significant:
  "get_limitation_reasons w c \<noteq> [] \<Longrightarrow> has_significant_limitations w c"
  unfolding reasons_nonempty_iff
  by (auto simp: has_significant_limitations_def Let_def LOW_RELIABILITY_THRESHOLD_def
      dest: stability_phrases_significant)

lemma tos_only_trading_bot:
  "has_tos_restrictions_for_use_case a uc
     = (uc = TRADING_BOT \<and> has_tos_restrictions_for_use_case a TRADING_BOT)"
  by (simp add: has_tos_restrictions_for_use_case_def commercial_use_cases_def)

lemma alternative_for_Some:
  "alternative_for w (Some r) c =
     (if get_limitation_reasons w c \<noteq> []
      then (name (api r),
            ''Consider **'' @ name (api r) @ ''** as an alternative due to ''
              @ possessive (name (api w)) @ '' ''
              @ join '' and '' (get_limitation_reasons w c) @ ''. ''
              @ name (api r) @ '' has a '' @ str_int (compatibility_percentage r)
              @ ''% compatibility score and ''
              @ str_int (py_int (reliability_score (api r) * 100)) @ ''% reliability.'')
      else ([], []))"
  using reasons_imply_significant [of w c]
  by (auto simp: alternative_for_def Let_def)

text \<open>
  C3: \<open>generate_verdict\<close> fills \<open>alternative_api\<close>, with the runner-up's name, and
  \<open>alternative_reason\<close>, with a non-empty sentence, if and only if there is a runner-up and
  the winner has a qualifying limitation: reliability below 0.70, or a conflicting ToS
  restriction under the Trading Bot use case, or a limitation holding "unofficial api" or
  "may break without notice". Otherwise both are the empty string. With non-empty provider
  names (the catalog's invariant) the two fields are empty together or filled together.
\<close>

theorem generate_verdict_alternative:
  "alternative_api (generate_verdict scores c) =
     (case scores of
        w # r # rest \<Rightarrow>
          if reliability_score (api w) < 70 / 100
             \<or> (use_case c = TRADING_BOT \<and> has_tos_restrictions_for_use_case (api w) TRADING_BOT)
             \<or> list_ex (\<lambda>l. sublist ''unofficial api'' (lower l)
                           \<or> sublist ''may break without notice'' (lower l)) (limitations (api w))
          then name (api r) else []
      | _ \<Rightarrow> [])
   \<and> (alternative_reason (generate_verdict scores c) \<noteq> []) =
     (case scores of
        w # r # rest \<Rightarrow>
          reliability_score (api w) < 70 / 100
          \<or> (use_case c = TRADING_BOT \<and> has_tos_restrictions_for_use_case (api w) TRADING_BOT)
          \<or> list_ex (\<lambda>l. sublist ''unofficial api'' (lower l)
                        \<or> sublist ''may break without notice'' (lower l)) (limitations (api w))
      | _ \<Rightarrow> False)
   \<and> ((\<forall>s\<in>set scores. name (api s) \<noteq> []) \<longrightarrow>
        (alternative_api (generate_verdict scores c) = [])
          = (alternative_reason (generate_verdict scores c) = []))"
proof (cases scores)
  case Nil
  then show ?thesis by (simp add: generate_verdict_def)
next
  case (Cons w others)
  show ?thesis
  proof (cases others)
    case Nil
    with Cons show ?thesis
      by (simp add: generate_verdict_def alternative_for_def Let_def)
  next
    case (Cons r rest)
    with \<open>scores = w # others\<close> have scores: "scores = w # r # rest" by simp
    have alt: "alternative_api (generate_verdict scores c) = fst (alternative_for w (Some r) c)"
      "alternative_reason (generate_verdict scores c) = snd (alternative_for w (Some r) c)"
      by (simp_all add: scores generate_verdict_def Let_def)
    have cond: "get_limitation_reasons w c \<noteq> [] \<longleftrightarrow>
        reliability_score (api w) < 70 / 100
        \<or> (use_case c = TRADING_BOT \<and> has_tos_restrictions_for_use_case (api w) TRADING_BOT)
        \<or> list_ex (\<lambda>l. sublist ''unofficial api'' (lower l)
                      \<or> sublist ''may break without notice'' (lower l)) (limitations (api w))"
      unfolding reasons_nonempty_iff
      using tos_only_trading_bot [of "api w" "use_case c"] by simp
    show ?thesis
    proof (cases "get_limitation_reasons w c = []")
      case True
      with cond show ?thesis
        unfolding alt alternative_for_Some by (auto simp: scores)
    next
      case False
      with cond show ?thesis
        unfolding alt alternative_for_Some by (auto simp: scores)
    qed
  qed
qed

theorem generate_verdict_alternative_witness:
  "alternative_api (generate_verdict
      [\<lparr>api = yahoo_finance, total_score = 100, category_scores = [],
        compatibility_percentage = 100, recommendation_rank = 1\<rparr>,
       \<lparr>api = eodhd, total_score = 100, category_scores = [],
        compatibility_percentage = 100, recommendation_rank = 2\<rparr>]
      \<lparr>budget = FREE, data_types = [STOCKS], frequency = EOD, use_case = RESEARCH\<rparr>) = ''EODHD''
   \<and> alternative_reason (generate_verdict
      [\<lparr>api = yahoo_finance, total_score = 100, category_scores = [],
        compatibility_percentage = 100, recommendation_rank = 1\<rparr>,
       \<lparr>api = eodhd, total_score = 100, category_scores = [],
        compatibility_percentage = 100, recommendation_rank = 2\<rparr>]
      \<lparr>budget = FREE, data_types = [STOCKS], frequency = EOD, use_case = RESEARCH\<rparr>) \<noteq> []
   \<and> alternative_api (generate_verdict
      [\<lparr>api = eodhd, total_score = 100, category_scores = [],
        compatibility_percentage = 100, recommendation_rank = 1\<rparr>,
       \<lparr>api = yahoo_finance, total_score = 100, category_scores = [],
        compatibility_percentage = 100, recommendation_rank = 2\<rparr>]
      \<lparr>budget = FREE, data_types = [STOCKS], frequency = EOD, use_case = RESEARCH\<rparr>) = []
   \<and> alternative_reason (generate_verdict
      [\<lparr>api = eodhd, total_score = 100, category_scores = [],
        compatibility_percentage = 100, recommendation_rank = 1\<rparr>,
       \<lparr>api = yahoo_finance, total_score = 100, category_scores = [],
        compatibility_percentage = 100, recommendation_rank = 2\<rparr>]
      \<lparr>budget = FREE, data_types = [STOCKS], frequency = EOD, use_case = RESEARCH\<rparr>) = []
   \<and> alternative_api (generate_verdict
      [\<lparr>api = yahoo_finance, total_score = 100, category_scores = [],
        compatibility_percentage = 100, recommendation_rank = 1\<rparr>]
      \<lparr>budget = FREE, data_types = [STOCKS], frequency = EOD, use_case = RESEARCH\<rparr>) = []"
proof -
  let ?c = "\<lparr>budget = FREE, data_types = [STOCKS], frequency = EOD, use_case = RESEARCH\<rparr>"
  let ?y = "\<lparr>api = yahoo_finance, total_score = 100, category_scores = [],
        compatibility_percentage = 100, recommendation_rank = 1\<rparr>"
  let ?e = "\<lparr>api = eodhd, total_score = 100, category_scores = [],
        compatibility_percentage = 100, recommendation_rank = 2\<rparr>"
  let ?e1 = "\<lparr>api = eodhd, total_score = 100, category_scores = [],
        compatibility_percentage = 100, recommendation_rank = 1\<rparr>"
  let ?y2 = "\<lparr>api = yahoo_finance, total_score = 100, category_scores = [],
        compatibility_percentage = 100, recommendation_rank = 2\<rparr>"
  have low: "reliability_score (api ?y) < 70 / 100"
    by (simp add: yahoo_finance_def)
  have ok: "\<not> reliability_score (api ?e1) < 70 / 100"
    by (simp add: eodhd_def)
  have stable: "\<not> list_ex (\<lambda>l. sublist ''unofficial api'' (lower l)
                          \<or> sublist ''may break without notice'' (lower l)) (limitations (api ?e1))"
    by code_simp
  have research: "use_case ?c \<noteq> TRADING_BOT"
    by simp
  have nm: "name (api ?e) = ''EODHD''"
    by (simp add: eodhd_def)
  note first = generate_verdict_alternative [of "[?y, ?e]" ?c]
  note second = generate_verdict_alternative [of "[?e1, ?y2]" ?c]
  note single = generate_verdict_alternative [of "[?y]" ?c]
  have a1: "alternative_api (generate_verdict [?y, ?e] ?c) = ''EODHD''"
    using first [THEN conjunct1] low nm by (simp only: list.case if_True simp_thms)
  have a2: "alternative_reason (generate_verdict [?y, ?e] ?c) \<noteq> []"
    using first [THEN conjunct2, THEN conjunct1] low by (simp only: list.case simp_thms)
  have b1: "alternative_api (generate_verdict [?e1, ?y2] ?c) = []"
    using second [THEN conjunct1] ok stable research
    by (simp only: list.case if_False simp_thms)
  have b2: "alternative_reason (generate_verdict [?e1, ?y2] ?c) = []"
    using second [THEN conjunct2, THEN conjunct1] ok stable research
    by (simp only: list.case simp_thms)
  have s1: "alternative_api (generate_verdict [?y] ?c) = []"
    using single [THEN conjunct1] by (simp only: list.case)
  from a1 a2 b1 b2 s1 show ?thesis
    by (intro conjI)
qed

subsection \<open>Fallback recommendations\<close>








lemma sorted_desc_take:
  fixes k :: "'a \<Rightarrow> rat"
  shows "sorted_wrt (\<lambda>x y. k y \<le> k x) xs \<Longrightarrow> sorted_wrt (\<lambda>x y. k y \<le> k x) (take n xs)"
  by (simp add: sorted_wrt_take)








subsection \<open>Determinism of the scoring\<close>

lemma score_loop_timed_result:
  "fst (score_loop_timed clock c es scored_apis w) = score_loop c es scored_apis"
  by (induction es arbitrary: scored_apis w) (auto simp: time_time_def split: sum.splits)

lemma score_apis_timed_result:
  "fst (score_apis_timed clock c apis_arg w) = score_apis c apis_arg"
proof -
  have loop: "score_loop_timed clock c es [] w' = (score_loop c es [], snd (score_loop_timed clock c es [] w'))"
    for es w'
    using score_loop_timed_result [of clock c es "[]" w'] by (simp add: prod_eq_iff)
  show ?thesis
    unfolding score_apis_timed_def score_apis_def Let_def time_time_def
    by (subst loop) (simp split: prod.splits)
qed

text \<open>
  C9: two calls of \<^verbatim>\<open>score_apis\<close> with the same constraints and the same catalog return the
  same result (the same list of scores in the same order, or the same error), whatever the
  clock reads during either call and whatever was read or logged before it.
\<close>

theorem score_apis_deterministic:
  "fst (score_apis_timed clock c apis_arg w) = fst (score_apis_timed clock' c apis_arg w')"
  by (simp only: score_apis_timed_result)

text \<open>The clock does reach the log: a slow clock and a fast one leave different records.\<close>

lemma score_apis_timed_log_differs:
  "snd (score_apis_timed (\<lambda>n. 0)
          \<lparr>budget = FREE, data_types = [STOCKS], frequency = EOD, use_case = RESEARCH\<rparr>
          (Some [WellFormed alpha_stocks]) \<lparr>clock_reads = 0, emitted = []\<rparr>)
     \<noteq> snd (score_apis_timed (\<lambda>n. of_nat n)
          \<lparr>budget = FREE, data_types = [STOCKS], frequency = EOD, use_case = RESEARCH\<rparr>
          (Some [WellFormed alpha_stocks]) \<lparr>clock_reads = 0, emitted = []\<rparr>)"
  by code_simp

subsection \<open>The frame of the scoring\<close>

lemma score_loop_heap_extends:
  "score_loop_heap c as scored_apis h = (r, h1) \<Longrightarrow>
     (\<exists>new. h1 = h @ new \<and> list_all is_score new
        \<and> (\<forall>ps. r = Inr ps \<longrightarrow> ps = scored_apis @ [length h..<length h1]))"
proof (induction as arbitrary: scored_apis h)
  case Nil
  then show ?case by auto
next
  case (Cons a as)
  show ?case
  proof (cases "a < length h")
    case False
    with Cons.prems show ?thesis by auto
  next
    case True
    show ?thesis
    proof (cases "h ! a")
      case (ScoreObj a' ts cs cp rk)
      with True Cons.prems show ?thesis by auto
    next
      case (InfoObj e rk)
      show ?thesis
      proof (cases "score_entry c e")
        case (Inl err)
        with True InfoObj Cons.prems have "score_loop_heap c as scored_apis h = (r, h1)"
          by simp
        then show ?thesis by (rule Cons.IH)
      next
        case (Inr s)
        let ?x = "ScoreObj a (total_score s) (category_scores s) (compatibility_percentage s) 0"
        from True InfoObj Inr Cons.prems
        have "score_loop_heap c as (scored_apis @ [length h]) (h @ [?x]) = (r, h1)"
          by (simp add: alloc_def)
        from Cons.IH [OF this] obtain new where
          h1: "h1 = (h @ [?x]) @ new" and new: "list_all is_score new"
          and ps: "\<forall>ps. r = Inr ps \<longrightarrow>
                 ps = (scored_apis @ [length h]) @ [length (h @ [?x])..<length h1]"
          by blast
        have "length h < length h1"
          unfolding h1 by simp
        then have "[length h..<length h1] = length h # [Suc (length h)..<length h1]"
          by (rule upt_conv_Cons)
        then have "[length h..<length h1] = length h # [length (h @ [?x])..<length h1]"
          by (simp only: length_append_singleton)
        with ps have "\<forall>ps. r = Inr ps \<longrightarrow> ps = scored_apis @ [length h..<length h1]"
          by simp
        moreover have "h1 = h @ (?x # new)"
          using h1 by simp
        moreover have "list_all is_score (?x # new)"
          using new by (simp add: is_score_def)
        ultimately show ?thesis by blast
      qed
    qed
  qed
qed

lemma assign_ranks_heap_length: "length (assign_ranks_heap rank ps h) = length h"
  by (induction ps arbitrary: rank h) auto

lemma assign_ranks_heap_frame:
  "\<forall>p\<in>set ps. n \<le> p \<Longrightarrow> take n (assign_ranks_heap rank ps h) = take n h"
  by (induction ps arbitrary: rank h) auto

lemma assign_ranks_heap_other:
  "p \<notin> set ps \<Longrightarrow> assign_ranks_heap rank ps h ! p = h ! p"
  by (induction ps arbitrary: rank h) auto

lemma assign_ranks_heap_nth:
  "distinct ps \<Longrightarrow> i < length ps \<Longrightarrow> \<forall>p\<in>set ps. p < length h \<Longrightarrow>
     assign_ranks_heap rank ps h ! (ps ! i) = set_recommendation_rank (rank + int i) (h ! (ps ! i))"
proof (induction ps arbitrary: rank h i)
  case Nil
  then show ?case by simp
next
  case (Cons p ps)
  show ?case
  proof (cases i)
    case 0
    with Cons.prems show ?thesis
      by (simp add: assign_ranks_heap_other)
  next
    case (Suc j)
    let ?h = "h[p := set_recommendation_rank rank (h ! p)]"
    from Cons.prems Suc have j: "j < length ps" and d: "distinct ps"
      and b: "\<forall>q\<in>set ps. q < length ?h" and ne: "ps ! j \<noteq> p"
      by auto
    from Cons.IH [OF d j b, of "rank + 1"] ne Suc show ?thesis
      by (simp add: add.assoc)
  qed
qed

lemma set_rank_idem:
  "set_recommendation_rank r (set_recommendation_rank r' x) = set_recommendation_rank r x"
  by (cases x) (simp_all add: set_recommendation_rank_def)

lemma assign_ranks_heap_only_rank:
  "map (set_recommendation_rank 0) (assign_ranks_heap rank ps h) = map (set_recommendation_rank 0) h"
proof (induction ps arbitrary: rank h)
  case Nil
  then show ?case by simp
next
  case (Cons p ps)
  have "map (set_recommendation_rank 0) (h[p := set_recommendation_rank rank (h ! p)])
      = map (set_recommendation_rank 0) h"
    by (cases "p < length h")
      (simp_all add: map_update set_rank_idem list_update_same_conv list_update_beyond)
  with Cons.IH show ?case by simp
qed

lemma rank_of_set_rank:
  "is_score x \<Longrightarrow> get_recommendation_rank (set_recommendation_rank r x) = Some r"
  by (cases x) (simp_all add: set_recommendation_rank_def get_recommendation_rank_def)

lemma is_score_set_rank: "is_score (set_recommendation_rank r x) = is_score x"
  by (cases x) (simp_all add: set_recommendation_rank_def is_score_def)

lemma resolve_apis_extends:
  "resolve_apis apis_arg h = (apis, h0) \<Longrightarrow> \<exists>new. h0 = h @ new"
  by (cases apis_arg) (auto simp: resolve_apis_def)

lemma ranked_cells:
  assumes d: "distinct ps" and b: "\<forall>p\<in>set ps. p < length h \<and> is_score (h ! p)"
  shows "map (\<lambda>p. get_recommendation_rank (assign_ranks_heap 1 ps h ! p)) ps
           = map (\<lambda>i. Some (int i)) [1..<Suc (length ps)]
         \<and> (\<forall>p\<in>set ps. is_score (assign_ranks_heap 1 ps h ! p))"
proof -
  have lt: "\<forall>p\<in>set ps. p < length h"
    using b by blast
  have cell: "assign_ranks_heap 1 ps h ! (ps ! i)
      = set_recommendation_rank (1 + int i) (h ! (ps ! i))" if "i < length ps" for i
    using d that lt by (rule assign_ranks_heap_nth)
  have ranks: "map (\<lambda>p. get_recommendation_rank (assign_ranks_heap 1 ps h ! p)) ps
           = map (\<lambda>i. Some (int i)) [1..<Suc (length ps)]"
  proof (rule nth_equalityI)
    show "length (map (\<lambda>p. get_recommendation_rank (assign_ranks_heap 1 ps h ! p)) ps)
        = length (map (\<lambda>i. Some (int i)) [1..<Suc (length ps)])"
      by (simp del: upt_Suc)
  next
    fix i
    assume "i < length (map (\<lambda>p. get_recommendation_rank (assign_ranks_heap 1 ps h ! p)) ps)"
    then have i: "i < length ps"
      by simp
    then have "is_score (h ! (ps ! i))"
      using b by simp
    then have "get_recommendation_rank (assign_ranks_heap 1 ps h ! (ps ! i)) = Some (1 + int i)"
      by (simp add: cell [OF i] rank_of_set_rank)
    moreover have "[1..<Suc (length ps)] ! i = 1 + i"
      using i by (simp add: nth_upt del: upt_Suc)
    ultimately show "map (\<lambda>p. get_recommendation_rank (assign_ranks_heap 1 ps h ! p)) ps ! i
        = map (\<lambda>i. Some (int i)) [1..<Suc (length ps)] ! i"
      using i by (simp del: upt_Suc)
  qed
  have scores: "is_score (assign_ranks_heap 1 ps h ! p)" if "p \<in> set ps" for p
  proof -
    from that obtain i where i: "i < length ps" and p: "ps ! i = p"
      by (auto simp: in_set_conv_nth)
    from that b have "is_score (h ! p)"
      by blast
    with cell [OF i] p show ?thesis
      by (simp add: is_score_set_rank)
  qed
  from ranks scores show ?thesis
    by blast
qed

text \<open>
  C10: \<^verbatim>\<open>score_apis\<close> leaves every object that existed before the call as it was, whether
  it returns or raises; so every field of every input \<^verbatim>\<open>APIInfo\<close> keeps its value, and no
  attribute is added to one. The objects it returns are distinct \<^verbatim>\<open>APIScore\<close> objects
  created during the call, the one at position \<open>i\<close> of the result carrying rank \<open>i\<close>
  (from 1), and between their construction and the return nothing in the heap changes but
  a \<^verbatim>\<open>recommendation_rank\<close>.
\<close>

theorem score_apis_heap_frame:
  "take (length h) (snd (score_apis_heap c apis_arg h)) = h
   \<and> (\<forall>ps. fst (score_apis_heap c apis_arg h) = Inr ps \<longrightarrow>
         distinct ps
         \<and> (\<forall>p\<in>set ps. length h \<le> p \<and> p < length (snd (score_apis_heap c apis_arg h))
                \<and> is_score (snd (score_apis_heap c apis_arg h) ! p))
         \<and> map (\<lambda>p. get_recommendation_rank (snd (score_apis_heap c apis_arg h) ! p)) ps
             = map (\<lambda>i. Some (int i)) [1..<Suc (length ps)])
   \<and> map (set_recommendation_rank 0) (snd (score_apis_heap c apis_arg h))
       = map (set_recommendation_rank 0)
           (snd (score_loop_heap c (fst (resolve_apis apis_arg h)) []
                   (snd (resolve_apis apis_arg h))))"
proof -
  obtain apis h0 where res: "resolve_apis apis_arg h = (apis, h0)"
    by (cases "resolve_apis apis_arg h")
  obtain r h1 where loop: "score_loop_heap c apis [] h0 = (r, h1)"
    by (cases "score_loop_heap c apis [] h0")
  from resolve_apis_extends [OF res] obtain new0 where h0: "h0 = h @ new0"
    by blast
  from score_loop_heap_extends [OF loop] obtain new where h1: "h1 = h0 @ new"
    and new: "list_all is_score new"
    and ps: "\<forall>ps. r = Inr ps \<longrightarrow> ps = [] @ [length h0..<length h1]"
    by blast
  have old: "take (length h) h1 = h"
    by (simp add: h1 h0)
  show ?thesis
  proof (cases "\<exists>scored. r = Inr scored \<and> scored \<noteq> []")
    case False
    then have "snd (score_apis_heap c apis_arg h) = h1
        \<and> (\<forall>ps. fst (score_apis_heap c apis_arg h) \<noteq> Inr ps)"
      by (cases r) (auto simp: score_apis_heap_def res loop)
    with old show ?thesis
      by (simp add: res loop)
  next
    case True
    then obtain scored where r: "r = Inr scored" and ne: "scored \<noteq> []"
      by blast
    let ?sorted = "sort_desc (total_score_at h1) scored"
    let ?h = "assign_ranks_heap 1 ?sorted h1"
    have run: "score_apis_heap c apis_arg h = (Inr ?sorted, ?h)"
      using ne by (simp add: score_apis_heap_def res loop r Let_def)
    from ps r have scored: "scored = [length h0..<length h1]"
      by simp
    have set_sorted: "set ?sorted = {length h0..<length h1}"
      by (simp add: sort_desc_def scored)
    have d: "distinct ?sorted"
      by (simp add: sort_desc_def scored)
    have cells: "\<forall>p\<in>set ?sorted. p < length h1 \<and> is_score (h1 ! p)"
    proof
      fix p
      assume "p \<in> set ?sorted"
      with set_sorted have lo: "length h0 \<le> p" and hi: "p < length h1"
        by auto
      from lo hi have "h1 ! p = new ! (p - length h0)" and "p - length h0 < length new"
        by (auto simp: h1 nth_append)
      with new have "is_score (h1 ! p)"
        by (simp add: list_all_length)
      with hi show "p < length h1 \<and> is_score (h1 ! p)"
        by blast
    qed
    have fresh: "\<forall>p\<in>set ?sorted. length h \<le> p"
      using set_sorted by (auto simp: h0)
    have frame: "take (length h) ?h = h"
      using assign_ranks_heap_frame [OF fresh] old by simp
    have bound: "\<forall>p\<in>set ?sorted. length h \<le> p \<and> p < length ?h"
      using fresh cells by (simp add: assign_ranks_heap_length)
    note ranked = ranked_cells [OF d cells]
    have only: "map (set_recommendation_rank 0) ?h = map (set_recommendation_rank 0) h1"
      by (rule assign_ranks_heap_only_rank)
    from frame d bound ranked only show ?thesis
      unfolding run res loop fst_conv snd_conv by blast
  qed
qed

theorem score_apis_heap_frame_witness:
  "fst (score_apis_heap
          \<lparr>budget = FREE, data_types = [STOCKS], frequency = EOD, use_case = RESEARCH\<rparr>
          (Some [0, 1, 0]) demo_heap) = Inr [2, 4, 3]
   \<and> take 2 (snd (score_apis_heap
          \<lparr>budget = FREE, data_types = [STOCKS], frequency = EOD, use_case = RESEARCH\<rparr>
          (Some [0, 1, 0]) demo_heap)) = demo_heap
   \<and> map (\<lambda>p. get_recommendation_rank (snd (score_apis_heap
          \<lparr>budget = FREE, data_types = [STOCKS], frequency = EOD, use_case = RESEARCH\<rparr>
          (Some [0, 1, 0]) demo_heap) ! p)) [2, 4, 3] = [Some 1, Some 2, Some 3]"
proof -
  let ?c = "\<lparr>budget = FREE, data_types = [STOCKS], frequency = EOD, use_case = RESEARCH\<rparr>"
  let ?r = "score_apis_heap ?c (Some [0, 1, 0]) demo_heap"
  have run: "fst ?r = Inr [2, 4, 3]"
    by code_simp
  have len: "length demo_heap = 2"
    by (simp add: demo_heap_def)
  have upt: "map (\<lambda>i. Some (int i)) [1..<Suc (length [2::nat, 4, 3])] = [Some 1, Some 2, Some 3]"
    by code_simp
  note frame = score_apis_heap_frame [where h = demo_heap and c = ?c and apis_arg = "Some [0, 1, 0]"]
  from frame have "take (length demo_heap) (snd ?r) = demo_heap"
    by (rule conjunct1)
  then have old: "take 2 (snd ?r) = demo_heap"
    by (simp only: len)
  from frame have "\<forall>ps. fst ?r = Inr ps \<longrightarrow>
         distinct ps
         \<and> (\<forall>p\<in>set ps. length demo_heap \<le> p \<and> p < length (snd ?r) \<and> is_score (snd ?r ! p))
         \<and> map (\<lambda>p. get_recommendation_rank (snd ?r ! p)) ps
             = map (\<lambda>i. Some (int i)) [1..<Suc (length ps)]"
    by (rule conjunct1 [OF conjunct2])
  with run have "map (\<lambda>p. get_recommendation_rank (snd ?r ! p)) [2, 4, 3]
             = map (\<lambda>i. Some (int i)) [1..<Suc (length [2::nat, 4, 3])]"
    by blast
  then have ranks: "map (\<lambda>p. get_recommendation_rank (snd ?r ! p)) [2, 4, 3]
             = [Some 1, Some 2, Some 3]"
    by (simp only: upt)
  from run old ranks show ?thesis
    by (intro conjI)
qed

end
